theory Spec2Isabelle
  imports Main "HOL-Library.Word"
begin

section \<open>Settings dialog: API-key validation and the save/load lifecycle\<close>

text \<open>
  A shallow embedding of \<^verbatim>\<open>src/components/Settings/SettingsDialog.tsx\<close>: the key
  validator \<^verbatim>\<open>validateApiKey\<close>, the save handler \<^verbatim>\<open>handleSave\<close>, the load effect that
  runs when the dialog opens, and the event lifecycle of the component.
\<close>

subsection \<open>JavaScript strings\<close>

text \<open>
  A JavaScript string is a sequence of UTF-16 code units. The keys are typed by the user,
  so they range over all such sequences; the string literals of the source are ASCII and
  are written with \<open>js\<close>.
\<close>

type_synonym code_unit = "16 word"
type_synonym jsstring = "code_unit list"

definition js :: "string \<Rightarrow> jsstring" where
  "js cs = map of_char cs"

text \<open>
  \<^verbatim>\<open>String.prototype.trim\<close> removes, from both ends, the code units that ECMAScript calls
  WhiteSpace (TAB, VT, FF, SP, NBSP, ZWNBSP and the Unicode space separators) or
  LineTerminator (LF, CR, LS, PS).
\<close>

definition isWhiteSpace :: "code_unit \<Rightarrow> bool" where
  "isWhiteSpace c =
     (c \<in> set [0x0009, 0x000A, 0x000B, 0x000C, 0x000D, 0x0020, 0x00A0, 0x1680,
               0x2028, 0x2029, 0x202F, 0x205F, 0x3000, 0xFEFF]
      \<or> (0x2000 \<le> c \<and> c \<le> 0x200A))"

definition trim :: "jsstring \<Rightarrow> jsstring" where
  "trim s = rev (dropWhile isWhiteSpace (rev (dropWhile isWhiteSpace s)))"

text \<open>A string is truthy exactly when it is not empty (\<^verbatim>\<open>apiKey && ...\<close>, \<^verbatim>\<open>!apiKey\<close>).\<close>

definition truthy :: "jsstring \<Rightarrow> bool" where
  "truthy s = (s \<noteq> [])"

subsection \<open>Regular expressions of the source\<close>

text \<open>
  The two regular expression literals of \<^verbatim>\<open>validateApiKey\<close> carry no flags and are built
  from the anchors \<^verbatim>\<open>^\<close> and \<^verbatim>\<open>$\<close>, single characters, character classes and the
  quantifier \<^verbatim>\<open>{n,}\<close> on a class. A class is the list of its ranges; a single member
  \<^verbatim>\<open>c\<close> of a class is the range from \<^verbatim>\<open>c\<close> to \<^verbatim>\<open>c\<close>.
\<close>

datatype atom = Char code_unit | Class "(code_unit \<times> code_unit) list"

datatype piece = Bol | Eol | One atom | AtLeast nat atom

type_synonym regex = "piece list"

definition in_range :: "code_unit \<Rightarrow> code_unit \<times> code_unit \<Rightarrow> bool" where
  "in_range c r = (fst r \<le> c \<and> c \<le> snd r)"

fun atom_accepts :: "atom \<Rightarrow> code_unit \<Rightarrow> bool" where
  "atom_accepts (Char d) c = (c = d)"
| "atom_accepts (Class rs) c = list_ex (in_range c) rs"

text \<open>
  The backtracking matcher. \<open>run p pos s\<close> tries to match the pattern \<open>p\<close> at index
  \<open>pos\<close> of the input, \<open>s\<close> being the input from that index on. Without the multiline
  flag \<^verbatim>\<open>^\<close> holds at index 0 only and \<^verbatim>\<open>$\<close> at the end of the input only. The quantifier
  is greedy: it takes one more character when it can and gives it back when the rest of the
  pattern fails.
\<close>

fun run :: "regex \<Rightarrow> nat \<Rightarrow> jsstring \<Rightarrow> bool" where
  "run [] pos s = True"
| "run (Bol # p) pos s = (pos = 0 \<and> run p pos s)"
| "run (Eol # p) pos s = (s = [] \<and> run p pos s)"
| "run (One a # p) pos [] = False"
| "run (One a # p) pos (c # s) = (atom_accepts a c \<and> run p (Suc pos) s)"
| "run (AtLeast (Suc n) a # p) pos [] = False"
| "run (AtLeast (Suc n) a # p) pos (c # s) =
     (atom_accepts a c \<and> run (AtLeast n a # p) (Suc pos) s)"
| "run (AtLeast 0 a # p) pos [] = run p pos []"
| "run (AtLeast 0 a # p) pos (c # s) =
     ((atom_accepts a c \<and> run (AtLeast 0 a # p) (Suc pos) s) \<or> run p pos (c # s))"

text \<open>
  \<^verbatim>\<open>RegExp.prototype.test\<close> on a regular expression without the global and sticky flags
  starts at index 0 and tries every start index up to the length of the input.
\<close>

definition regex_test :: "regex \<Rightarrow> jsstring \<Rightarrow> bool" where
  "regex_test p s = list_ex (\<lambda>i. run p i (drop i s)) [0..<Suc (length s)]"

definition lit :: "string \<Rightarrow> regex" where
  "lit cs = map (\<lambda>c. One (Char (of_char c))) cs"

definition rng :: "char \<Rightarrow> char \<Rightarrow> code_unit \<times> code_unit" where
  "rng a b = (of_char a, of_char b)"

text \<open>\<^verbatim>\<open>/^sk-[a-zA-Z0-9]{32,}$/\<close>\<close>

definition openai_key_regex :: regex where
  "openai_key_regex =
     Bol # lit ''sk-'' @
     [AtLeast 32 (Class [rng CHR ''a'' CHR ''z'', rng CHR ''A'' CHR ''Z'', rng CHR ''0'' CHR ''9'']),
      Eol]"

text \<open>\<^verbatim>\<open>/^sk[-_]ant[-_][a-zA-Z0-9]{32,}$/\<close>\<close>

definition claude_key_regex :: regex where
  "claude_key_regex =
     Bol # lit ''sk'' @ [One (Class [rng CHR ''-'' CHR ''-'', rng CHR ''_'' CHR ''_''])] @
     lit ''ant'' @ [One (Class [rng CHR ''-'' CHR ''-'', rng CHR ''_'' CHR ''_''])] @
     [AtLeast 32 (Class [rng CHR ''a'' CHR ''z'', rng CHR ''A'' CHR ''Z'', rng CHR ''0'' CHR ''9'']),
      Eol]"

subsection \<open>The key validator\<close>

datatype provider = openai | claude

definition validateApiKey :: "jsstring \<Rightarrow> provider \<Rightarrow> bool" where
  "validateApiKey key provider =
     (if provider = openai then regex_test openai_key_regex (trim key)
      else regex_test claude_key_regex (trim key))"

subsection \<open>The key formats as the specification words them\<close>

text \<open>
  The specification gives the formats as \<^verbatim>\<open>^sk-[A-Za-z0-9]{32,}$\<close> and
  \<^verbatim>\<open>^sk[-_]ant[-_][A-Za-z0-9]{32,}$\<close>. Read as sets of strings: the whole string is the
  fixed prefix followed by at least 32 characters, each an ASCII letter or digit.
\<close>

definition is_alnum :: "code_unit \<Rightarrow> bool" where
  "is_alnum c =
     ((of_char CHR ''A'' \<le> c \<and> c \<le> of_char CHR ''Z'')
      \<or> (of_char CHR ''a'' \<le> c \<and> c \<le> of_char CHR ''z'')
      \<or> (of_char CHR ''0'' \<le> c \<and> c \<le> of_char CHR ''9''))"

definition is_sep :: "code_unit \<Rightarrow> bool" where
  "is_sep c = (c = of_char CHR ''-'' \<or> c = of_char CHR ''_'')"

definition key_body :: "jsstring \<Rightarrow> bool" where
  "key_body b = (32 \<le> length b \<and> list_all is_alnum b)"

fun matches_openai_pattern :: "jsstring \<Rightarrow> bool" where
  "matches_openai_pattern (c1 # c2 # c3 # b) =
     ([c1, c2, c3] = js ''sk-'' \<and> key_body b)"
| "matches_openai_pattern _ = False"

fun matches_claude_pattern :: "jsstring \<Rightarrow> bool" where
  "matches_claude_pattern (c1 # c2 # c3 # c4 # c5 # c6 # c7 # b) =
     ([c1, c2] = js ''sk'' \<and> is_sep c3 \<and> [c4, c5, c6] = js ''ant'' \<and> is_sep c7 \<and> key_body b)"
| "matches_claude_pattern _ = False"

definition matches_pattern :: "provider \<Rightarrow> jsstring \<Rightarrow> bool" where
  "matches_pattern p s =
     (case p of openai \<Rightarrow> matches_openai_pattern s | claude \<Rightarrow> matches_claude_pattern s)"

subsection \<open>The component: props, state and what it does at its boundary\<close>

text \<open>
  The object handed to \<^verbatim>\<open>window.electronAPI.updateConfig\<close>, and the object that
  \<^verbatim>\<open>getConfig\<close> resolves to. Every field of the latter is read through \<^verbatim>\<open>|| default\<close>, so
  a field may be absent.
\<close>

record config =
  cfg_provider :: provider
  cfg_apiKey :: jsstring
  cfg_claudeApiKey :: jsstring
  cfg_extractionModel :: jsstring
  cfg_solutionModel :: jsstring
  cfg_debuggingModel :: jsstring

record stored_config =
  st_apiKey :: "jsstring option"
  st_claudeApiKey :: "jsstring option"
  st_provider :: "provider option"
  st_extractionModel :: "jsstring option"
  st_solutionModel :: "jsstring option"
  st_debuggingModel :: "jsstring option"

text \<open>\<^verbatim>\<open>x || d\<close> on an optional string: \<^verbatim>\<open>undefined\<close> and the empty string are falsy.\<close>

definition or_default :: "jsstring option \<Rightarrow> jsstring \<Rightarrow> jsstring" where
  "or_default x d = (case x of None \<Rightarrow> d | Some v \<Rightarrow> if truthy v then v else d)"

definition or_provider :: "provider option \<Rightarrow> provider \<Rightarrow> provider" where
  "or_provider x d = (case x of None \<Rightarrow> d | Some v \<Rightarrow> v)"

text \<open>How a promise of the host bridge settles.\<close>

datatype 'a settled = Resolved 'a | Rejected

text \<open>
  The props (\<open>externalOpen\<close>, and whether \<open>onOpenChange\<close> is supplied), the nine
  \<^verbatim>\<open>useState\<close> cells, and a log of every call the component makes to its collaborators:
  toasts shown, \<^verbatim>\<open>console.error\<close> messages, \<^verbatim>\<open>updateConfig\<close> arguments, the number of
  \<^verbatim>\<open>getConfig\<close> calls, \<^verbatim>\<open>onOpenChange\<close> arguments and the delays of the reload timers set.
  The state cell \<^verbatim>\<open>open\<close> is the field \<open>dialog_open\<close>.
\<close>

record dialog =
  externalOpen :: "bool option"
  has_onOpenChange :: bool
  dialog_open :: bool
  provider :: provider
  apiKey :: jsstring
  claudeApiKey :: jsstring
  extractionModel :: jsstring
  solutionModel :: jsstring
  debuggingModel :: jsstring
  isLoading :: bool
  validationError :: jsstring
  toasts :: "(jsstring \<times> jsstring \<times> jsstring) list"
  console_errors :: "jsstring list"
  updateConfig_calls :: "config list"
  getConfig_calls :: nat
  onOpenChange_calls :: "bool list"
  reload_timers :: "nat list"

definition edit_buffer ::
  "dialog \<Rightarrow> provider \<times> jsstring \<times> jsstring \<times> jsstring \<times> jsstring \<times> jsstring" where
  "edit_buffer s =
     (provider s, apiKey s, claudeApiKey s, extractionModel s, solutionModel s, debuggingModel s)"

definition default_buffer ::
  "provider \<times> jsstring \<times> jsstring \<times> jsstring \<times> jsstring \<times> jsstring" where
  "default_buffer = (openai, [], [], js ''gpt-4o'', js ''gpt-4o'', js ''gpt-4o'')"

definition showToast :: "string \<Rightarrow> string \<Rightarrow> string \<Rightarrow> dialog \<Rightarrow> dialog" where
  "showToast title description variant s =
     s\<lparr>toasts := toasts s @ [(js title, js description, js variant)]\<rparr>"

definition console_error :: "string \<Rightarrow> dialog \<Rightarrow> dialog" where
  "console_error msg s = s\<lparr>console_errors := console_errors s @ [js msg]\<rparr>"

subsection \<open>Loading the configuration when the dialog opens\<close>

text \<open>
  The body of the effect with dependencies \<^verbatim>\<open>[open, showToast]\<close>, up to the call of
  \<^verbatim>\<open>getConfig\<close>; the promise is then outstanding.
\<close>

definition load_effect :: "dialog \<Rightarrow> dialog" where
  "load_effect s =
     (if dialog_open s
      then s\<lparr>isLoading := True, validationError := [], getConfig_calls := Suc (getConfig_calls s)\<rparr>
      else s)"

text \<open>The \<^verbatim>\<open>then\<close>, \<^verbatim>\<open>catch\<close> and \<^verbatim>\<open>finally\<close> callbacks, run when the promise settles.\<close>

definition load_settled :: "stored_config settled \<Rightarrow> dialog \<Rightarrow> dialog" where
  "load_settled r s =
     (let s1 = (case r of
                  Resolved c \<Rightarrow>
                    s\<lparr>apiKey := or_default (st_apiKey c) [],
                      claudeApiKey := or_default (st_claudeApiKey c) [],
                      provider := or_provider (st_provider c) openai,
                      extractionModel := or_default (st_extractionModel c) (js ''gpt-4o''),
                      solutionModel := or_default (st_solutionModel c) (js ''gpt-4o''),
                      debuggingModel := or_default (st_debuggingModel c) (js ''gpt-4o'')\<rparr>
                | Rejected \<Rightarrow>
                    showToast ''Error'' ''Failed to load settings'' ''error''
                      (console_error ''Failed to load config:'' s))
      in s1\<lparr>isLoading := False\<rparr>)"

text \<open>
  \<^verbatim>\<open>setOpen\<close>, together with the load effect that React runs after the re-render in which
  \<^verbatim>\<open>open\<close> has changed. The identity of \<^verbatim>\<open>showToast\<close> is taken to be stable.
\<close>

definition setOpen :: "bool \<Rightarrow> dialog \<Rightarrow> dialog" where
  "setOpen b s =
     (if b \<noteq> dialog_open s then load_effect (s\<lparr>dialog_open := b\<rparr>) else s)"

text \<open>
  \<^verbatim>\<open>handleOpenChange\<close>. It reads the props of the render whose closure it belongs to,
  given as the first argument.
\<close>

definition handleOpenChange :: "bool option \<times> bool \<Rightarrow> bool \<Rightarrow> dialog \<Rightarrow> dialog" where
  "handleOpenChange props newOpen s =
     (let s1 = setOpen newOpen s
      in if snd props \<and> Some newOpen \<noteq> fst props
         then s1\<lparr>onOpenChange_calls := onOpenChange_calls s1 @ [newOpen]\<rparr>
         else s1)"

subsection \<open>Saving\<close>

text \<open>
  \<^verbatim>\<open>handleSave\<close> is an async function. \<open>handleSave_begin\<close> is its synchronous part: it
  either returns early with a validation error, or calls \<^verbatim>\<open>updateConfig\<close> and is suspended
  at the \<^verbatim>\<open>await\<close>. \<open>handleSave_resume\<close> is the rest, run when the promise settles.
\<close>

datatype suspended = Returned dialog | Awaiting dialog

definition current_config :: "dialog \<Rightarrow> config" where
  "current_config s =
     \<lparr>cfg_provider = provider s, cfg_apiKey = apiKey s, cfg_claudeApiKey = claudeApiKey s,
      cfg_extractionModel = extractionModel s, cfg_solutionModel = solutionModel s,
      cfg_debuggingModel = debuggingModel s\<rparr>"

definition handleSave_begin :: "dialog \<Rightarrow> suspended" where
  "handleSave_begin s =
     (let s1 = s\<lparr>validationError := []\<rparr> in
      if provider s = openai \<and> truthy (apiKey s) \<and> \<not> validateApiKey (apiKey s) openai then
        Returned (s1\<lparr>validationError :=
          js (''Invalid OpenAI API key format. Keys should start with 'sk-'' @ [CHR 0x27])\<rparr>)
      else if provider s = claude \<and> truthy (claudeApiKey s)
              \<and> \<not> validateApiKey (claudeApiKey s) claude then
        Returned (s1\<lparr>validationError :=
          js (''Invalid Claude API key format. Keys should start with 'sk-ant-' or 'sk_ant_''
              @ [CHR 0x27])\<rparr>)
      else if provider s = openai \<and> \<not> truthy (apiKey s) then
        Returned (s1\<lparr>validationError := js ''OpenAI API key is required''\<rparr>)
      else if provider s = claude \<and> \<not> truthy (claudeApiKey s) then
        Returned (s1\<lparr>validationError := js ''Claude API key is required''\<rparr>)
      else
        Awaiting (s1\<lparr>isLoading := True,
                      updateConfig_calls := updateConfig_calls s1 @ [current_config s]\<rparr>))"

definition handleSave_resume :: "bool option \<times> bool \<Rightarrow> bool settled \<Rightarrow> dialog \<Rightarrow> dialog" where
  "handleSave_resume props r s =
     (let s1 = (case r of
                  Resolved result \<Rightarrow>
                    if result then
                      (let s2 = handleOpenChange props False
                                  (showToast ''Success'' ''Settings saved successfully'' ''success'' s)
                       in s2\<lparr>reload_timers := reload_timers s2 @ [1500]\<rparr>)
                    else s
                | Rejected \<Rightarrow>
                    showToast ''Error'' ''Failed to save settings'' ''error''
                      (console_error ''Failed to save settings:'' s))
      in s1\<lparr>isLoading := False\<rparr>)"

text \<open>The whole handler, when nothing else happens while the submission is outstanding.\<close>

definition handleSave :: "dialog \<Rightarrow> bool settled \<Rightarrow> dialog" where
  "handleSave s r =
     (case handleSave_begin s of
        Returned s' \<Rightarrow> s'
      | Awaiting s' \<Rightarrow> handleSave_resume (externalOpen s, has_onOpenChange s) r s')"

text \<open>
  The key that the selected provider requires, in a configuration handed to
  \<^verbatim>\<open>updateConfig\<close>, and what it means for it to be present and validated.
\<close>

definition required_key :: "config \<Rightarrow> jsstring" where
  "required_key c = (case cfg_provider c of openai \<Rightarrow> cfg_apiKey c | claude \<Rightarrow> cfg_claudeApiKey c)"

definition validated :: "config \<Rightarrow> bool" where
  "validated c = (required_key c \<noteq> [] \<and> validateApiKey (required_key c) (cfg_provider c))"

subsection \<open>The lifecycle of the component\<close>

text \<open>
  The component together with the promises that are outstanding: the number of
  \<^verbatim>\<open>getConfig\<close> promises already settled (the others are pending), and for each suspended
  \<^verbatim>\<open>handleSave\<close> the props its closure has captured.
\<close>

record lifecycle =
  comp :: dialog
  loads_settled :: nat
  pending_saves :: "(bool option \<times> bool) list"

text \<open>
  Mounting: \<^verbatim>\<open>useState(externalOpen || false)\<close> and the initial values of the other cells,
  then the effects of the first render.
\<close>

definition initial_dialog :: "bool option \<Rightarrow> bool \<Rightarrow> dialog" where
  "initial_dialog ext cb =
     \<lparr>externalOpen = ext, has_onOpenChange = cb, dialog_open = (ext = Some True),
      provider = openai, apiKey = [], claudeApiKey = [],
      extractionModel = js ''gpt-4o'', solutionModel = js ''gpt-4o'',
      debuggingModel = js ''gpt-4o'', isLoading = False, validationError = [],
      toasts = [], console_errors = [], updateConfig_calls = [], getConfig_calls = 0,
      onOpenChange_calls = [], reload_timers = []\<rparr>"

definition mount :: "bool option \<Rightarrow> bool \<Rightarrow> lifecycle" where
  "mount ext cb =
     \<lparr>comp = load_effect (initial_dialog ext cb), loads_settled = 0, pending_saves = []\<rparr>"

text \<open>The three entries of \<^verbatim>\<open>modelCategories\<close> and the model ids each of them offers.\<close>

datatype category = extractionModelKey | solutionModelKey | debuggingModelKey

definition model_ids :: "jsstring list" where
  "model_ids = [js ''gpt-4o'', js ''gpt-4o-mini'']"

text \<open>
  What can happen to the mounted component: the parent renders it with new props, the
  dialog reports an open change, the user clicks or types, a promise settles. The content
  of the dialog is taken to be on screen only while the dialog is open; the key input of a
  provider and the model choices are rendered only for the provider selected, and the Save
  button is disabled while \<^verbatim>\<open>isLoading\<close> holds. An event that cannot happen in a state
  leaves it as it is.
\<close>

datatype event =
    Render "bool option" bool
  | DialogOpenChange bool
  | ClickCancel
  | ClickProvider provider
  | TypeApiKey jsstring
  | TypeClaudeApiKey jsstring
  | ClickModel category jsstring
  | ClickSave
  | LoadSettles "stored_config settled"
  | SaveSettles nat "bool settled"

definition props_of :: "dialog \<Rightarrow> bool option \<times> bool" where
  "props_of s = (externalOpen s, has_onOpenChange s)"

definition remove_nth :: "nat \<Rightarrow> 'a list \<Rightarrow> 'a list" where
  "remove_nth i xs = take i xs @ drop (Suc i) xs"

fun step :: "event \<Rightarrow> lifecycle \<Rightarrow> lifecycle" where
  "step (Render ext cb) w =
     (let s = comp w; s1 = s\<lparr>externalOpen := ext, has_onOpenChange := cb\<rparr>
      in w\<lparr>comp := (if ext \<noteq> externalOpen s
                      then (case ext of None \<Rightarrow> s1 | Some b \<Rightarrow> setOpen b s1)
                      else s1)\<rparr>)"
| "step (DialogOpenChange b) w =
     (let s = comp w
      in if dialog_open s then w\<lparr>comp := handleOpenChange (props_of s) b s\<rparr> else w)"
| "step ClickCancel w =
     (let s = comp w
      in if dialog_open s then w\<lparr>comp := handleOpenChange (props_of s) False s\<rparr> else w)"
| "step (ClickProvider p) w =
     (let s = comp w in if dialog_open s then w\<lparr>comp := s\<lparr>provider := p\<rparr>\<rparr> else w)"
| "step (TypeApiKey v) w =
     (let s = comp w
      in if dialog_open s \<and> provider s = openai then w\<lparr>comp := s\<lparr>apiKey := v\<rparr>\<rparr> else w)"
| "step (TypeClaudeApiKey v) w =
     (let s = comp w
      in if dialog_open s \<and> provider s = claude then w\<lparr>comp := s\<lparr>claudeApiKey := v\<rparr>\<rparr> else w)"
| "step (ClickModel k m) w =
     (let s = comp w
      in if dialog_open s \<and> provider s = openai \<and> m \<in> set model_ids
         then w\<lparr>comp := (case k of
                            extractionModelKey \<Rightarrow> s\<lparr>extractionModel := m\<rparr>
                          | solutionModelKey \<Rightarrow> s\<lparr>solutionModel := m\<rparr>
                          | debuggingModelKey \<Rightarrow> s\<lparr>debuggingModel := m\<rparr>)\<rparr>
         else w)"
| "step ClickSave w =
     (let s = comp w
      in if dialog_open s \<and> \<not> isLoading s
         then (case handleSave_begin s of
                 Returned s' \<Rightarrow> w\<lparr>comp := s'\<rparr>
               | Awaiting s' \<Rightarrow> w\<lparr>comp := s', pending_saves := pending_saves w @ [props_of s]\<rparr>)
         else w)"
| "step (LoadSettles r) w =
     (if loads_settled w < getConfig_calls (comp w)
      then w\<lparr>comp := load_settled r (comp w), loads_settled := Suc (loads_settled w)\<rparr>
      else w)"
| "step (SaveSettles i r) w =
     (if i < length (pending_saves w)
      then w\<lparr>comp := handleSave_resume (pending_saves w ! i) r (comp w),
              pending_saves := remove_nth i (pending_saves w)\<rparr>
      else w)"

fun exec :: "event list \<Rightarrow> lifecycle \<Rightarrow> lifecycle" where
  "exec [] w = w"
| "exec (e # es) w = exec es (step e w)"

text \<open>
  A run in which no configuration load settles while a save submission is outstanding.
\<close>

fun no_load_settles_during_save :: "event list \<Rightarrow> lifecycle \<Rightarrow> bool" where
  "no_load_settles_during_save [] w = True"
| "no_load_settles_during_save (e # es) w =
     ((case e of LoadSettles r \<Rightarrow> pending_saves w = [] | _ \<Rightarrow> True)
      \<and> no_load_settles_during_save es (step e w))"

text \<open>Two keys used in the scenarios: \<^verbatim>\<open>"sk-" + "a".repeat(32)\<close> and \<^verbatim>\<open>"sk-short"\<close>.\<close>

definition key_sk_32a :: jsstring where
  "key_sk_32a = js ''sk-'' @ replicate 32 (of_char CHR ''a'')"

definition key_sk_short :: jsstring where
  "key_sk_short = js ''sk-short''"

definition key_sk_ant_32b :: jsstring where
  "key_sk_ant_32b = js ''sk-ant-'' @ replicate 32 (of_char CHR ''b'')"

text \<open>A stored configuration that selects Claude and holds a Claude key only.\<close>

definition stored_claude :: stored_config where
  "stored_claude =
     \<lparr>st_apiKey = None, st_claudeApiKey = Some key_sk_ant_32b, st_provider = Some claude,
      st_extractionModel = None, st_solutionModel = None, st_debuggingModel = None\<rparr>"

text \<open>
  The busy flag covers the outstanding save submissions: there is none, or there is one
  and \<^verbatim>\<open>isLoading\<close> holds.
\<close>

definition busy_inv :: "lifecycle \<Rightarrow> bool" where
  "busy_inv w = (pending_saves w = [] \<or> (length (pending_saves w) = 1 \<and> isLoading (comp w)))"

text \<open>The form as first opened, with the scenario key typed into the OpenAI field.\<close>

definition typed_sk_32a :: dialog where
  "typed_sk_32a = (initial_dialog (Some True) True)\<lparr>provider := openai, apiKey := key_sk_32a\<rparr>"

text \<open>
  The events that are neither an edit by the user nor a load that succeeds.
\<close>

fun writes_no_buffer :: "event \<Rightarrow> bool" where
  "writes_no_buffer (ClickProvider p) = False"
| "writes_no_buffer (TypeApiKey v) = False"
| "writes_no_buffer (TypeClaudeApiKey v) = False"
| "writes_no_buffer (ClickModel k m) = False"
| "writes_no_buffer (LoadSettles (Resolved c)) = False"
| "writes_no_buffer _ = True"

text \<open>A stored configuration that selects OpenAI and holds the scenario key.\<close>

definition stored_openai :: stored_config where
  "stored_openai =
     \<lparr>st_apiKey = Some key_sk_32a, st_claudeApiKey = None, st_provider = Some openai,
      st_extractionModel = None, st_solutionModel = None, st_debuggingModel = None\<rparr>"

text \<open>
  A run of the dialog mounted open: the stored configuration is loaded, Save is clicked,
  and while that submission is outstanding the dialog is cancelled, closed and opened again
  by the parent, and the load started by the reopening settles.
\<close>

definition reopen_during_save :: "event list" where
  "reopen_during_save =
     [LoadSettles (Resolved stored_openai), ClickSave, ClickCancel,
      Render (Some False) True, Render (Some True) True, LoadSettles (Resolved stored_openai)]"

section \<open>Properties of the key validator\<close>

lemma run_AtLeast_Eol:
  "run [AtLeast n a, Eol] pos s = (n \<le> length s \<and> list_all (atom_accepts a) s)"
proof (induction s arbitrary: n pos)
  case Nil
  show ?case by (cases n) simp_all
next
  case (Cons c s)
  show ?case by (cases n) (auto simp: Cons.IH)
qed

lemma run_One:
  "run (One a # p) pos s = (case s of [] \<Rightarrow> False | c # t \<Rightarrow> atom_accepts a c \<and> run p (Suc pos) t)"
  by (cases s) simp_all

lemma regex_test_Bol: "regex_test (Bol # p) s = run p 0 s"
proof -
  have "\<not> list_ex (\<lambda>i. run (Bol # p) i (drop i s)) [Suc 0..<Suc (length s)]"
    by (simp add: list_ex_iff)
  then show ?thesis
    by (simp add: regex_test_def upt_conv_Cons del: upt_Suc)
qed

lemma alnum_class:
  "atom_accepts (Class [rng CHR ''a'' CHR ''z'', rng CHR ''A'' CHR ''Z'', rng CHR ''0'' CHR ''9''])
     = is_alnum"
  by (rule ext) (auto simp: in_range_def rng_def is_alnum_def)

lemma sep_class:
  "atom_accepts (Class [rng CHR ''-'' CHR ''-'', rng CHR ''_'' CHR ''_'']) = is_sep"
  by (rule ext) (auto simp: in_range_def rng_def is_sep_def)

lemma openai_regex_language:
  "regex_test openai_key_regex s = matches_openai_pattern s"
proof -
  have "run (lit ''sk-'' @ [AtLeast 32 (Class [rng CHR ''a'' CHR ''z'', rng CHR ''A'' CHR ''Z'',
          rng CHR ''0'' CHR ''9'']), Eol]) 0 s = matches_openai_pattern s"
  proof (cases s rule: matches_openai_pattern.cases)
    case (1 c1 c2 c3 b)
    then show ?thesis
      by (simp add: lit_def js_def run_AtLeast_Eol alnum_class key_body_def conj_ac)
  qed (simp_all add: lit_def)
  then show ?thesis
    by (simp add: openai_key_regex_def regex_test_Bol)
qed

lemma claude_regex_language:
  "regex_test claude_key_regex s = matches_claude_pattern s"
proof -
  have "run (lit ''sk'' @ [One (Class [rng CHR ''-'' CHR ''-'', rng CHR ''_'' CHR ''_''])] @
     lit ''ant'' @ [One (Class [rng CHR ''-'' CHR ''-'', rng CHR ''_'' CHR ''_''])] @
     [AtLeast 32 (Class [rng CHR ''a'' CHR ''z'', rng CHR ''A'' CHR ''Z'', rng CHR ''0'' CHR ''9'']),
      Eol]) 0 s = matches_claude_pattern s"
  proof (cases s rule: matches_claude_pattern.cases)
    case (1 c1 c2 c3 c4 c5 c6 c7 b)
    then show ?thesis
      by (simp add: lit_def js_def run_AtLeast_Eol alnum_class sep_class key_body_def conj_ac
            del: atom_accepts.simps(2))
  qed (simp_all add: lit_def sep_class del: atom_accepts.simps(2))
  then show ?thesis
    by (simp add: claude_key_regex_def regex_test_Bol)
qed

text \<open>The two formats, read as sets of strings: a fixed prefix and then the body.\<close>

lemma matches_openai_pattern_iff:
  "matches_openai_pattern s \<longleftrightarrow> (\<exists>b. s = js ''sk-'' @ b \<and> key_body b)"
  by (cases s rule: matches_openai_pattern.cases) (auto simp: js_def)

lemma matches_claude_pattern_iff:
  "matches_claude_pattern s \<longleftrightarrow>
     (\<exists>d1 d2 b. s = js ''sk'' @ [d1] @ js ''ant'' @ [d2] @ b \<and> is_sep d1 \<and> is_sep d2 \<and> key_body b)"
  by (cases s rule: matches_claude_pattern.cases) (auto simp: js_def)

text \<open>
  Claim C1. For every string, the validator with provider \<open>openai\<close> returns true exactly
  when the trimmed string matches \<^verbatim>\<open>^sk-[A-Za-z0-9]{32,}$\<close>, and with provider \<open>claude\<close>
  exactly when the trimmed string matches \<^verbatim>\<open>^sk[-_]ant[-_][A-Za-z0-9]{32,}$\<close>.
\<close>

theorem validateApiKey_iff_pattern:
  "validateApiKey s openai = matches_openai_pattern (trim s)
   \<and> validateApiKey s claude = matches_claude_pattern (trim s)"
  by (simp add: validateApiKey_def openai_regex_language claude_regex_language)

subsection \<open>The scenario keys\<close>

lemma key_sk_32a_literal: "key_sk_32a = js ''sk-aaaaaaaaaaaaaaaaaaaaaaaaaaaaaaaa''"
  by (simp add: key_sk_32a_def js_def eval_nat_numeral)

lemma key_sk_32a_nonempty: "key_sk_32a \<noteq> []"
  by (simp add: key_sk_32a_def js_def)

lemma key_sk_short_nonempty: "key_sk_short \<noteq> []"
  by (simp add: key_sk_short_def js_def)

lemma matches_sk_32a: "matches_openai_pattern key_sk_32a"
  by (simp add: key_sk_32a_def js_def key_body_def is_alnum_def list_all_iff)

lemma matches_sk_ant_32b: "matches_claude_pattern key_sk_ant_32b"
  by (simp add: key_sk_ant_32b_def js_def key_body_def is_alnum_def is_sep_def list_all_iff)

lemma trim_sk_32a: "trim key_sk_32a = key_sk_32a"
  by (simp add: trim_def key_sk_32a_def js_def isWhiteSpace_def)

lemma valid_sk_32a: "validateApiKey key_sk_32a openai"
  by (simp add: validateApiKey_def openai_regex_language trim_sk_32a matches_sk_32a)

lemma trim_sk_short: "trim key_sk_short = key_sk_short"
  by (simp add: key_sk_short_def trim_def js_def isWhiteSpace_def)

lemma no_match_sk_short: "\<not> matches_openai_pattern key_sk_short"
  by (simp add: key_sk_short_def js_def key_body_def)

lemma invalid_sk_short: "\<not> validateApiKey key_sk_short openai"
  by (simp add: validateApiKey_def openai_regex_language trim_sk_short no_match_sk_short)

text \<open>
  Claim C3. The key validator is a total function of the key and the provider alone: on
  every string, the empty one included, and for both providers it returns a boolean, and
  it returns false on every input whose trimmed form is not of the provider's format.
  Totality rests on the termination of \<open>run\<close>, and nothing but the two arguments is
  read or written: the regular expressions carry no flag that would make
  \<^verbatim>\<open>test\<close> keep a position between calls.
\<close>

theorem validateApiKey_total_false_on_malformed:
  "validateApiKey [] p = False
   \<and> (\<not> matches_pattern p (trim s) \<longrightarrow> validateApiKey s p = False)
   \<and> (\<exists>b. validateApiKey s p = b)"
  by (cases p)
     (simp_all add: matches_pattern_def validateApiKey_def trim_def
        openai_regex_language claude_regex_language)

theorem validateApiKey_total_false_on_malformed_witness:
  "\<not> matches_pattern openai (trim key_sk_short)
   \<and> validateApiKey key_sk_short openai = False
   \<and> validateApiKey [] openai = False"
  using validateApiKey_total_false_on_malformed [of openai key_sk_short]
  by (simp add: matches_pattern_def trim_sk_short no_match_sk_short)

section \<open>Properties of saving and loading\<close>

subsection \<open>What each operation leaves alone\<close>

lemma edit_buffer_update [simp]:
  "edit_buffer (s\<lparr>externalOpen := a\<rparr>) = edit_buffer s"
  "edit_buffer (s\<lparr>has_onOpenChange := b\<rparr>) = edit_buffer s"
  "edit_buffer (s\<lparr>dialog_open := b\<rparr>) = edit_buffer s"
  "edit_buffer (s\<lparr>isLoading := b\<rparr>) = edit_buffer s"
  "edit_buffer (s\<lparr>validationError := m\<rparr>) = edit_buffer s"
  "edit_buffer (s\<lparr>toasts := ts\<rparr>) = edit_buffer s"
  "edit_buffer (s\<lparr>console_errors := es\<rparr>) = edit_buffer s"
  "edit_buffer (s\<lparr>updateConfig_calls := cs\<rparr>) = edit_buffer s"
  "edit_buffer (s\<lparr>getConfig_calls := n\<rparr>) = edit_buffer s"
  "edit_buffer (s\<lparr>onOpenChange_calls := os\<rparr>) = edit_buffer s"
  "edit_buffer (s\<lparr>reload_timers := rs\<rparr>) = edit_buffer s"
  by (simp_all add: edit_buffer_def)

lemma showToast_fields [simp]:
  "edit_buffer (showToast a b c s) = edit_buffer s"
  "updateConfig_calls (showToast a b c s) = updateConfig_calls s"
  "dialog_open (showToast a b c s) = dialog_open s"
  "isLoading (showToast a b c s) = isLoading s"
  "toasts (showToast a b c s) = toasts s @ [(js a, js b, js c)]"
  by (simp_all add: showToast_def)

lemma console_error_fields [simp]:
  "edit_buffer (console_error m s) = edit_buffer s"
  "updateConfig_calls (console_error m s) = updateConfig_calls s"
  "dialog_open (console_error m s) = dialog_open s"
  "isLoading (console_error m s) = isLoading s"
  "toasts (console_error m s) = toasts s"
  by (simp_all add: console_error_def)

lemma load_effect_fields [simp]:
  "edit_buffer (load_effect s) = edit_buffer s"
  "updateConfig_calls (load_effect s) = updateConfig_calls s"
  "dialog_open (load_effect s) = dialog_open s"
  "toasts (load_effect s) = toasts s"
  by (simp_all add: load_effect_def)

lemma setOpen_fields [simp]:
  "edit_buffer (setOpen b s) = edit_buffer s"
  "updateConfig_calls (setOpen b s) = updateConfig_calls s"
  "dialog_open (setOpen b s) = b"
  "toasts (setOpen b s) = toasts s"
  by (auto simp: setOpen_def)

lemma handleOpenChange_fields [simp]:
  "edit_buffer (handleOpenChange pr b s) = edit_buffer s"
  "updateConfig_calls (handleOpenChange pr b s) = updateConfig_calls s"
  "dialog_open (handleOpenChange pr b s) = b"
  "toasts (handleOpenChange pr b s) = toasts s"
  by (simp_all add: handleOpenChange_def Let_def)

lemma load_settled_fields [simp]:
  "updateConfig_calls (load_settled r s) = updateConfig_calls s"
  "dialog_open (load_settled r s) = dialog_open s"
  by (simp_all add: load_settled_def Let_def split: settled.splits)

lemma handleSave_resume_calls [simp]:
  "updateConfig_calls (handleSave_resume pr r s) = updateConfig_calls s"
  by (simp add: handleSave_resume_def Let_def split: settled.splits)

lemma isLoading_kept [simp]:
  "isLoading s \<Longrightarrow> isLoading (load_effect s)"
  "isLoading s \<Longrightarrow> isLoading (setOpen b s)"
  "isLoading s \<Longrightarrow> isLoading (handleOpenChange pr b s)"
  by (auto simp: load_effect_def setOpen_def handleOpenChange_def Let_def)

subsection \<open>The two ways out of the synchronous part of the save handler\<close>

lemma handleSave_begin_Awaiting:
  assumes "handleSave_begin s = Awaiting s'"
  shows "s' = s\<lparr>validationError := [], isLoading := True,
                 updateConfig_calls := updateConfig_calls s @ [current_config s]\<rparr>"
  using assms by (simp add: handleSave_begin_def Let_def split: if_splits)

lemma handleSave_begin_Returned:
  assumes "handleSave_begin s = Returned s'"
  shows "\<exists>m. s' = s\<lparr>validationError := m\<rparr>"
  using assms by (auto simp: handleSave_begin_def Let_def split: if_splits)

lemma handleSave_begin_validated:
  assumes "handleSave_begin s = Awaiting s'"
  shows "validated (current_config s)"
  using assms
  by (cases "provider s")
     (auto simp: handleSave_begin_def Let_def validated_def required_key_def current_config_def
        truthy_def split: if_splits)

lemma handleSave_begin_sk_32a:
  "handleSave_begin (s\<lparr>provider := openai, apiKey := key_sk_32a\<rparr>)
     = Awaiting (s\<lparr>provider := openai, apiKey := key_sk_32a, validationError := [],
         isLoading := True,
         updateConfig_calls := updateConfig_calls s @
           [current_config (s\<lparr>provider := openai, apiKey := key_sk_32a\<rparr>)]\<rparr>)"
  by (simp add: handleSave_begin_def truthy_def valid_sk_32a key_sk_32a_nonempty)

lemma handleSave_begin_sk_short:
  "handleSave_begin (s\<lparr>provider := openai, apiKey := key_sk_short\<rparr>)
     = Returned (s\<lparr>provider := openai, apiKey := key_sk_short,
         validationError :=
           js (''Invalid OpenAI API key format. Keys should start with 'sk-'' @ [CHR 0x27])\<rparr>)"
  by (simp add: handleSave_begin_def truthy_def invalid_sk_short key_sk_short_nonempty)

lemma handleSave_begin_typed:
  "handleSave_begin typed_sk_32a
     = Awaiting (typed_sk_32a\<lparr>validationError := [], isLoading := True,
         updateConfig_calls := [current_config typed_sk_32a]\<rparr>)"
  unfolding typed_sk_32a_def
  by (simp add: handleSave_begin_sk_32a) (simp add: initial_dialog_def)

subsection \<open>The scenarios\<close>

text \<open>
  Claim C6. With provider \<open>openai\<close> and the key \<^verbatim>\<open>"sk-short"\<close>, the save handler
  returns before any submission with the validation message
  \<^verbatim>\<open>"Invalid OpenAI API key format. Keys should start with 'sk-'"\<close>; with provider
  \<open>claude\<close> and an empty Claude key it returns before any submission with the message
  \<^verbatim>\<open>"Claude API key is required"\<close>. In both cases nothing but the validation message
  changes, whatever the bridge would have answered.
\<close>

theorem save_rejects_short_and_missing_key:
  "handleSave_begin (s\<lparr>provider := openai, apiKey := key_sk_short\<rparr>)
     = Returned (s\<lparr>provider := openai, apiKey := key_sk_short,
         validationError :=
           js (''Invalid OpenAI API key format. Keys should start with 'sk-'' @ [CHR 0x27])\<rparr>)
   \<and> handleSave (s\<lparr>provider := openai, apiKey := key_sk_short\<rparr>) r
     = s\<lparr>provider := openai, apiKey := key_sk_short,
         validationError :=
           js (''Invalid OpenAI API key format. Keys should start with 'sk-'' @ [CHR 0x27])\<rparr>
   \<and> handleSave_begin (s\<lparr>provider := claude, claudeApiKey := []\<rparr>)
     = Returned (s\<lparr>provider := claude, claudeApiKey := [],
         validationError := js ''Claude API key is required''\<rparr>)
   \<and> handleSave (s\<lparr>provider := claude, claudeApiKey := []\<rparr>) r
     = s\<lparr>provider := claude, claudeApiKey := [],
         validationError := js ''Claude API key is required''\<rparr>"
proof -
  have a: "handleSave_begin (s\<lparr>provider := claude, claudeApiKey := []\<rparr>)
     = Returned (s\<lparr>provider := claude, claudeApiKey := [],
         validationError := js ''Claude API key is required''\<rparr>)"
    by (simp add: handleSave_begin_def truthy_def)
  show ?thesis
    by (simp only: handleSave_def handleSave_begin_sk_short a suspended.case simp_thms)
qed

text \<open>
  Claim C7. With provider \<open>openai\<close> and the key \<^verbatim>\<open>"sk-"\<close> followed by 32 times
  \<^verbatim>\<open>'a'\<close>, the save handler passes validation and calls \<^verbatim>\<open>updateConfig\<close> once, with
  the \<^verbatim>\<open>apiKey\<close> field equal to that string; however the call settles, the handler makes
  no further call, and when it resolves to true the success toast is shown.
\<close>

theorem save_accepts_sk_32a:
  "handleSave_begin (s\<lparr>provider := openai, apiKey := key_sk_32a\<rparr>)
     = Awaiting (s\<lparr>provider := openai, apiKey := key_sk_32a, validationError := [],
         isLoading := True,
         updateConfig_calls := updateConfig_calls s @
           [current_config (s\<lparr>provider := openai, apiKey := key_sk_32a\<rparr>)]\<rparr>)
   \<and> updateConfig_calls (handleSave (s\<lparr>provider := openai, apiKey := key_sk_32a\<rparr>) r)
     = updateConfig_calls s @ [current_config (s\<lparr>provider := openai, apiKey := key_sk_32a\<rparr>)]
   \<and> cfg_apiKey (current_config (s\<lparr>provider := openai, apiKey := key_sk_32a\<rparr>))
     = js ''sk-aaaaaaaaaaaaaaaaaaaaaaaaaaaaaaaa''
   \<and> toasts (handleSave (s\<lparr>provider := openai, apiKey := key_sk_32a\<rparr>) (Resolved True))
     = toasts s @ [(js ''Success'', js ''Settings saved successfully'', js ''success'')]"
  by (simp add: handleSave_def handleSave_begin_sk_32a)
     (simp add: current_config_def key_sk_32a_literal handleSave_resume_def Let_def)

subsection \<open>Only validated keys are submitted\<close>

lemma step_keeps_calls_validated:
  assumes "list_all validated (updateConfig_calls (comp w))"
  shows "list_all validated (updateConfig_calls (comp (step e w)))"
proof (cases e)
  case ClickSave
  show ?thesis
  proof (cases "handleSave_begin (comp w)")
    case (Returned s')
    with handleSave_begin_Returned [OF Returned] assms ClickSave show ?thesis
      by (auto simp: Let_def)
  next
    case (Awaiting s')
    with handleSave_begin_Awaiting [OF Awaiting] handleSave_begin_validated [OF Awaiting]
      assms ClickSave show ?thesis
      by (auto simp: Let_def)
  qed
next
  case (ClickModel k m)
  with assms show ?thesis by (cases k) (simp_all add: Let_def)
qed (use assms in \<open>auto simp: Let_def split: option.splits\<close>)

lemma exec_keeps_calls_validated:
  "list_all validated (updateConfig_calls (comp w)) \<Longrightarrow>
   list_all validated (updateConfig_calls (comp (exec es w)))"
  by (induction es arbitrary: w) (simp_all add: step_keeps_calls_validated)

lemma mount_no_calls: "updateConfig_calls (comp (mount ext cb)) = []"
  by (simp add: mount_def initial_dialog_def)

lemmas lifecycle_eval = mount_def initial_dialog_def load_effect_def load_settled_def
  setOpen_def handleOpenChange_def props_of_def showToast_def console_error_def Let_def
  handleSave_resume_def remove_nth_def or_default_def or_provider_def truthy_def

lemma exec_one_save:
  "updateConfig_calls (comp (exec [LoadSettles Rejected, TypeApiKey key_sk_32a, ClickSave]
      (mount (Some True) True))) = [current_config typed_sk_32a]"
  by (simp add: lifecycle_eval handleSave_begin_def valid_sk_32a key_sk_32a_nonempty
        current_config_def typed_sk_32a_def)

text \<open>
  Claim C2. In every state of the edit buffer, when the save handler reaches the call of
  \<^verbatim>\<open>updateConfig\<close>, the key that the selected provider requires (\<open>apiKey\<close> for
  \<open>openai\<close>, \<open>claudeApiKey\<close> for \<open>claude\<close>) is not empty and passes the validator
  for that provider, and the configuration submitted is the edit buffer; when the handler
  returns early it makes no call. Hence in every run of the component every configuration
  ever handed to \<^verbatim>\<open>updateConfig\<close> carries a present and validated required key.
\<close>

theorem updateConfig_only_with_validated_key:
  "(handleSave_begin s = Awaiting s' \<longrightarrow>
      validated (current_config s)
      \<and> updateConfig_calls s' = updateConfig_calls s @ [current_config s])
   \<and> (handleSave_begin s = Returned s' \<longrightarrow> updateConfig_calls s' = updateConfig_calls s)
   \<and> list_all validated (updateConfig_calls (comp (exec es (mount ext cb))))"
proof (intro conjI impI)
  assume a: "handleSave_begin s = Awaiting s'"
  show "validated (current_config s)" by (rule handleSave_begin_validated [OF a])
  show "updateConfig_calls s' = updateConfig_calls s @ [current_config s]"
    using handleSave_begin_Awaiting [OF a] by simp
next
  assume "handleSave_begin s = Returned s'"
  from handleSave_begin_Returned [OF this]
  show "updateConfig_calls s' = updateConfig_calls s" by auto
next
  show "list_all validated (updateConfig_calls (comp (exec es (mount ext cb))))"
    by (rule exec_keeps_calls_validated) (simp add: mount_no_calls)
qed

theorem updateConfig_only_with_validated_key_witness:
  "handleSave_begin typed_sk_32a
     = Awaiting (typed_sk_32a\<lparr>validationError := [], isLoading := True,
         updateConfig_calls := [current_config typed_sk_32a]\<rparr>)
   \<and> validated (current_config typed_sk_32a)
   \<and> handleSave_begin (typed_sk_32a\<lparr>provider := openai, apiKey := key_sk_short\<rparr>)
     = Returned (typed_sk_32a\<lparr>provider := openai, apiKey := key_sk_short,
         validationError :=
           js (''Invalid OpenAI API key format. Keys should start with 'sk-'' @ [CHR 0x27])\<rparr>)
   \<and> updateConfig_calls (typed_sk_32a\<lparr>provider := openai, apiKey := key_sk_short,
         validationError :=
           js (''Invalid OpenAI API key format. Keys should start with 'sk-'' @ [CHR 0x27])\<rparr>)
     = updateConfig_calls (typed_sk_32a\<lparr>provider := openai, apiKey := key_sk_short\<rparr>)
   \<and> updateConfig_calls (comp (exec [LoadSettles Rejected, TypeApiKey key_sk_32a, ClickSave]
        (mount (Some True) True))) = [current_config typed_sk_32a]
   \<and> list_all validated (updateConfig_calls (comp
        (exec [LoadSettles Rejected, TypeApiKey key_sk_32a, ClickSave] (mount (Some True) True))))"
  using updateConfig_only_with_validated_key
          [of typed_sk_32a
              "typed_sk_32a\<lparr>validationError := [], isLoading := True,
                 updateConfig_calls := [current_config typed_sk_32a]\<rparr>"
              "[LoadSettles Rejected, TypeApiKey key_sk_32a, ClickSave]" "Some True" True]
        updateConfig_only_with_validated_key
          [of "typed_sk_32a\<lparr>provider := openai, apiKey := key_sk_short\<rparr>"
              "typed_sk_32a\<lparr>provider := openai, apiKey := key_sk_short,
                 validationError :=
                   js (''Invalid OpenAI API key format. Keys should start with 'sk-'' @ [CHR 0x27])\<rparr>"
              "[]" None False]
        handleSave_begin_typed handleSave_begin_sk_short [of typed_sk_32a] exec_one_save
  by simp

subsection \<open>How a submission ends\<close>

lemma edit_buffer_typed:
  "edit_buffer typed_sk_32a = (openai, key_sk_32a, [], js ''gpt-4o'', js ''gpt-4o'', js ''gpt-4o'')"
  by (simp add: typed_sk_32a_def initial_dialog_def edit_buffer_def)

lemma toasts_typed: "toasts typed_sk_32a = []"
  by (simp add: typed_sk_32a_def initial_dialog_def)

text \<open>
  Claim C5. When the submission of a save fails (the promise of \<^verbatim>\<open>updateConfig\<close> is
  rejected), the error toast \<^verbatim>\<open>"Failed to save settings"\<close> is shown and every field of
  the edit buffer (provider, both keys, the three model choices) is as it was; the dialog
  stays as it was and the busy flag is cleared, so the user can retry. This holds for the
  continuation in whatever state the component is when the promise settles, and for the
  handler as a whole.
\<close>

theorem save_failure_keeps_buffer:
  "toasts (handleSave_resume props Rejected s)
     = toasts s @ [(js ''Error'', js ''Failed to save settings'', js ''error'')]
   \<and> edit_buffer (handleSave_resume props Rejected s) = edit_buffer s
   \<and> dialog_open (handleSave_resume props Rejected s) = dialog_open s
   \<and> \<not> isLoading (handleSave_resume props Rejected s)
   \<and> (handleSave_begin s0 = Awaiting s1 \<longrightarrow>
        toasts (handleSave s0 Rejected)
          = toasts s0 @ [(js ''Error'', js ''Failed to save settings'', js ''error'')]
        \<and> edit_buffer (handleSave s0 Rejected) = edit_buffer s0)"
proof -
  have "toasts (handleSave s0 Rejected)
          = toasts s0 @ [(js ''Error'', js ''Failed to save settings'', js ''error'')]
        \<and> edit_buffer (handleSave s0 Rejected) = edit_buffer s0"
    if "handleSave_begin s0 = Awaiting s1"
    using that handleSave_begin_Awaiting [OF that]
    by (simp add: handleSave_def handleSave_resume_def)
  then show ?thesis
    by (simp add: handleSave_resume_def)
qed

theorem save_failure_keeps_buffer_witness:
  "handleSave_begin typed_sk_32a
     = Awaiting (typed_sk_32a\<lparr>validationError := [], isLoading := True,
         updateConfig_calls := [current_config typed_sk_32a]\<rparr>)
   \<and> toasts (handleSave typed_sk_32a Rejected)
     = [(js ''Error'', js ''Failed to save settings'', js ''error'')]
   \<and> edit_buffer (handleSave typed_sk_32a Rejected)
     = (openai, key_sk_32a, [], js ''gpt-4o'', js ''gpt-4o'', js ''gpt-4o'')"
  using save_failure_keeps_buffer
          [of "(Some True, True)" typed_sk_32a typed_sk_32a
              "typed_sk_32a\<lparr>validationError := [], isLoading := True,
                 updateConfig_calls := [current_config typed_sk_32a]\<rparr>"]
        handleSave_begin_typed
  by (simp add: edit_buffer_typed toasts_typed)

text \<open>
  Claim C10. When the promise of \<^verbatim>\<open>updateConfig\<close> resolves to false, the continuation
  of the save handler does nothing but clear the busy flag: no toast of either kind, no
  console message, no reload timer, no open change and no change to the edit buffer. The
  handler as a whole therefore leaves the state it found, except that the validation
  message is cleared, the busy flag is cleared and the call is on record.
\<close>

theorem save_resolved_false_is_silent:
  "handleSave_resume props (Resolved False) s = s\<lparr>isLoading := False\<rparr>
   \<and> (handleSave_begin s0 = Awaiting s1 \<longrightarrow>
        handleSave s0 (Resolved False)
          = s0\<lparr>validationError := [], isLoading := False,
                updateConfig_calls := updateConfig_calls s0 @ [current_config s0]\<rparr>)"
proof -
  have "handleSave s0 (Resolved False)
          = s0\<lparr>validationError := [], isLoading := False,
                updateConfig_calls := updateConfig_calls s0 @ [current_config s0]\<rparr>"
    if "handleSave_begin s0 = Awaiting s1"
    using that handleSave_begin_Awaiting [OF that]
    by (simp add: handleSave_def handleSave_resume_def)
  then show ?thesis
    by (simp add: handleSave_resume_def)
qed

theorem save_resolved_false_is_silent_witness:
  "handleSave_begin typed_sk_32a
     = Awaiting (typed_sk_32a\<lparr>validationError := [], isLoading := True,
         updateConfig_calls := [current_config typed_sk_32a]\<rparr>)
   \<and> handleSave typed_sk_32a (Resolved False)
     = typed_sk_32a\<lparr>validationError := [], isLoading := False,
         updateConfig_calls := [current_config typed_sk_32a]\<rparr>
   \<and> toasts (handleSave typed_sk_32a (Resolved False)) = []
   \<and> dialog_open (handleSave typed_sk_32a (Resolved False))"
proof -
  have calls: "updateConfig_calls typed_sk_32a = []" and is_open: "dialog_open typed_sk_32a"
    by (simp_all add: typed_sk_32a_def initial_dialog_def)
  from save_resolved_false_is_silent
          [of "(Some True, True)" typed_sk_32a typed_sk_32a
              "typed_sk_32a\<lparr>validationError := [], isLoading := True,
                 updateConfig_calls := [current_config typed_sk_32a]\<rparr>"]
        handleSave_begin_typed
  show ?thesis
    by (simp add: calls is_open toasts_typed)
qed

subsection \<open>Keys padded with whitespace\<close>

lemma alnum_not_whitespace: "is_alnum c \<Longrightarrow> \<not> isWhiteSpace c"
  unfolding is_alnum_def isWhiteSpace_def by (auto simp: word_le_nat_alt)

lemma key_body_last: "key_body b \<Longrightarrow> b \<noteq> [] \<and> \<not> isWhiteSpace (last b)"
proof -
  assume a: "key_body b"
  then have ne: "b \<noteq> []" by (auto simp: key_body_def)
  then have "last b \<in> set b" by simp
  with a have "is_alnum (last b)" by (auto simp: key_body_def list_all_iff)
  with ne show ?thesis by (simp add: alnum_not_whitespace)
qed

lemma openai_core_ends:
  assumes "matches_openai_pattern core"
  shows "core \<noteq> [] \<and> \<not> isWhiteSpace (hd core) \<and> \<not> isWhiteSpace (last core)"
proof (cases core rule: matches_openai_pattern.cases)
  case (1 c1 c2 c3 b)
  with assms key_body_last [of b] show ?thesis
    by (simp add: js_def isWhiteSpace_def)
qed (use assms in simp_all)

lemma claude_core_ends:
  assumes "matches_claude_pattern core"
  shows "core \<noteq> [] \<and> \<not> isWhiteSpace (hd core) \<and> \<not> isWhiteSpace (last core)"
proof (cases core rule: matches_claude_pattern.cases)
  case (1 c1 c2 c3 c4 c5 c6 c7 b)
  with assms key_body_last [of b] show ?thesis
    by (simp add: js_def isWhiteSpace_def)
qed (use assms in simp_all)

lemma trim_padded:
  assumes l: "list_all isWhiteSpace l" and r: "list_all isWhiteSpace r"
    and core: "core \<noteq> [] \<and> \<not> isWhiteSpace (hd core) \<and> \<not> isWhiteSpace (last core)"
  shows "trim (l @ core @ r) = core"
proof -
  from core obtain c cs where c: "core = c # cs" "\<not> isWhiteSpace c" by (cases core) auto
  have "dropWhile isWhiteSpace (l @ core @ r) = dropWhile isWhiteSpace (core @ r)"
    by (rule dropWhile_append2) (use l in \<open>simp add: list_all_iff\<close>)
  also have "\<dots> = core @ r" using c by simp
  finally have front: "dropWhile isWhiteSpace (l @ core @ r) = core @ r" .
  from core have "rev core \<noteq> []" "\<not> isWhiteSpace (hd (rev core))"
    by (simp_all add: hd_rev)
  then obtain d ds where d: "rev core = d # ds" "\<not> isWhiteSpace d" by (cases "rev core") auto
  have "dropWhile isWhiteSpace (rev r @ rev core) = dropWhile isWhiteSpace (rev core)"
    by (rule dropWhile_append2) (use r in \<open>simp add: list_all_iff\<close>)
  then have "dropWhile isWhiteSpace (rev (core @ r)) = dropWhile isWhiteSpace (rev core)"
    by simp
  also have "\<dots> = rev core" using d by simp
  finally show ?thesis by (simp add: trim_def front)
qed

text \<open>
  Claim C9. The validator trims the key before matching, the save handler submits the
  edit buffer as it is: for every key made of a core of the provider's format with any
  whitespace before and after it, the save handler passes validation and hands
  \<^verbatim>\<open>updateConfig\<close> the key verbatim, whitespace included.
\<close>

theorem save_submits_untrimmed_key:
  assumes "list_all isWhiteSpace l" and "list_all isWhiteSpace r"
  shows "(matches_openai_pattern core \<longrightarrow>
            handleSave_begin (s\<lparr>provider := openai, apiKey := l @ core @ r\<rparr>)
              = Awaiting (s\<lparr>provider := openai, apiKey := l @ core @ r, validationError := [],
                  isLoading := True,
                  updateConfig_calls := updateConfig_calls s @
                    [\<lparr>cfg_provider = openai, cfg_apiKey = l @ core @ r,
                      cfg_claudeApiKey = claudeApiKey s, cfg_extractionModel = extractionModel s,
                      cfg_solutionModel = solutionModel s,
                      cfg_debuggingModel = debuggingModel s\<rparr>]\<rparr>))
       \<and> (matches_claude_pattern core \<longrightarrow>
            handleSave_begin (s\<lparr>provider := claude, claudeApiKey := l @ core @ r\<rparr>)
              = Awaiting (s\<lparr>provider := claude, claudeApiKey := l @ core @ r, validationError := [],
                  isLoading := True,
                  updateConfig_calls := updateConfig_calls s @
                    [\<lparr>cfg_provider = claude, cfg_apiKey = apiKey s,
                      cfg_claudeApiKey = l @ core @ r, cfg_extractionModel = extractionModel s,
                      cfg_solutionModel = solutionModel s,
                      cfg_debuggingModel = debuggingModel s\<rparr>]\<rparr>))"
proof (intro conjI impI)
  assume m: "matches_openai_pattern core"
  note e = openai_core_ends [OF m]
  have "validateApiKey (l @ core @ r) openai"
    using m by (simp add: validateApiKey_def openai_regex_language trim_padded [OF assms e])
  moreover have "l @ core @ r \<noteq> []" using e by simp
  ultimately show "handleSave_begin (s\<lparr>provider := openai, apiKey := l @ core @ r\<rparr>)
              = Awaiting (s\<lparr>provider := openai, apiKey := l @ core @ r, validationError := [],
                  isLoading := True,
                  updateConfig_calls := updateConfig_calls s @
                    [\<lparr>cfg_provider = openai, cfg_apiKey = l @ core @ r,
                      cfg_claudeApiKey = claudeApiKey s, cfg_extractionModel = extractionModel s,
                      cfg_solutionModel = solutionModel s,
                      cfg_debuggingModel = debuggingModel s\<rparr>]\<rparr>)"
    by (simp add: handleSave_begin_def truthy_def current_config_def)
next
  assume m: "matches_claude_pattern core"
  note e = claude_core_ends [OF m]
  have "validateApiKey (l @ core @ r) claude"
    using m by (simp add: validateApiKey_def claude_regex_language trim_padded [OF assms e])
  moreover have "l @ core @ r \<noteq> []" using e by simp
  ultimately show "handleSave_begin (s\<lparr>provider := claude, claudeApiKey := l @ core @ r\<rparr>)
              = Awaiting (s\<lparr>provider := claude, claudeApiKey := l @ core @ r, validationError := [],
                  isLoading := True,
                  updateConfig_calls := updateConfig_calls s @
                    [\<lparr>cfg_provider = claude, cfg_apiKey = apiKey s,
                      cfg_claudeApiKey = l @ core @ r, cfg_extractionModel = extractionModel s,
                      cfg_solutionModel = solutionModel s,
                      cfg_debuggingModel = debuggingModel s\<rparr>]\<rparr>)"
    by (simp add: handleSave_begin_def truthy_def current_config_def)
qed

theorem save_submits_untrimmed_key_witness:
  "list_all isWhiteSpace (js '' '') \<and> list_all isWhiteSpace [0x000A]
   \<and> matches_openai_pattern key_sk_32a
   \<and> handleSave_begin (typed_sk_32a\<lparr>provider := openai,
          apiKey := js '' '' @ key_sk_32a @ [0x000A]\<rparr>)
      = Awaiting (typed_sk_32a\<lparr>provider := openai,
          apiKey := js '' '' @ key_sk_32a @ [0x000A], validationError := [], isLoading := True,
          updateConfig_calls := updateConfig_calls typed_sk_32a @
            [\<lparr>cfg_provider = openai, cfg_apiKey = js '' '' @ key_sk_32a @ [0x000A],
              cfg_claudeApiKey = claudeApiKey typed_sk_32a,
              cfg_extractionModel = extractionModel typed_sk_32a,
              cfg_solutionModel = solutionModel typed_sk_32a,
              cfg_debuggingModel = debuggingModel typed_sk_32a\<rparr>]\<rparr>)
   \<and> matches_claude_pattern key_sk_ant_32b
   \<and> handleSave_begin (typed_sk_32a\<lparr>provider := claude,
          claudeApiKey := js '' '' @ key_sk_ant_32b @ [0x000A]\<rparr>)
      = Awaiting (typed_sk_32a\<lparr>provider := claude,
          claudeApiKey := js '' '' @ key_sk_ant_32b @ [0x000A], validationError := [],
          isLoading := True,
          updateConfig_calls := updateConfig_calls typed_sk_32a @
            [\<lparr>cfg_provider = claude, cfg_apiKey = apiKey typed_sk_32a,
              cfg_claudeApiKey = js '' '' @ key_sk_ant_32b @ [0x000A],
              cfg_extractionModel = extractionModel typed_sk_32a,
              cfg_solutionModel = solutionModel typed_sk_32a,
              cfg_debuggingModel = debuggingModel typed_sk_32a\<rparr>]\<rparr>)"
proof -
  have l: "list_all isWhiteSpace (js '' '')" by (simp add: js_def isWhiteSpace_def)
  have r: "list_all isWhiteSpace [0x000A]" by (simp add: isWhiteSpace_def)
  from save_submits_untrimmed_key [OF l r, of key_sk_32a typed_sk_32a]
    save_submits_untrimmed_key [OF l r, of key_sk_ant_32b typed_sk_32a]
    matches_sk_32a matches_sk_ant_32b l r
  show ?thesis by blast
qed

subsection \<open>A load that fails\<close>

lemma load_settled_Rejected_buffer [simp]:
  "edit_buffer (load_settled Rejected s) = edit_buffer s"
  by (simp add: load_settled_def)

lemma handleSave_resume_buffer [simp]:
  "edit_buffer (handleSave_resume pr r s) = edit_buffer s"
  by (simp add: handleSave_resume_def Let_def split: settled.splits)

lemma step_writes_no_buffer:
  assumes "writes_no_buffer e"
  shows "edit_buffer (comp (step e w)) = edit_buffer (comp w)"
proof (cases e)
  case ClickSave
  show ?thesis
  proof (cases "handleSave_begin (comp w)")
    case (Returned s')
    with handleSave_begin_Returned [OF Returned] ClickSave show ?thesis
      by (auto simp: Let_def)
  next
    case (Awaiting s')
    with handleSave_begin_Awaiting [OF Awaiting] ClickSave show ?thesis
      by (auto simp: Let_def)
  qed
next
  case (LoadSettles r)
  with assms show ?thesis by (cases r) simp_all
qed (use assms in \<open>auto simp: Let_def split: option.splits\<close>)

lemma exec_writes_no_buffer:
  "list_all writes_no_buffer es \<Longrightarrow> edit_buffer (comp (exec es w)) = edit_buffer (comp w)"
  by (induction es arbitrary: w) (simp_all add: step_writes_no_buffer)

lemma mount_default_buffer: "edit_buffer (comp (mount ext cb)) = default_buffer"
  by (simp add: mount_def) (simp add: initial_dialog_def default_buffer_def edit_buffer_def)

text \<open>
  Claim C4, as amended. When a load fails (a pending promise of \<^verbatim>\<open>getConfig\<close> is
  rejected), the error toast \<^verbatim>\<open>"Failed to load settings"\<close> is shown, the busy flag is
  cleared and the failure writes no field of the edit buffer: the buffer is what it was at
  the moment the promise settled, edits made while the load was pending included. The
  buffer is at the defaults (provider \<open>openai\<close>, the three models \<^verbatim>\<open>"gpt-4o"\<close>, both
  keys empty) after every run from mounting in which no load has succeeded and the user
  has edited nothing.
\<close>

theorem load_failure_keeps_buffer:
  "edit_buffer (comp (step (LoadSettles Rejected) w)) = edit_buffer (comp w)
   \<and> (loads_settled w < getConfig_calls (comp w) \<longrightarrow>
        toasts (comp (step (LoadSettles Rejected) w))
          = toasts (comp w) @ [(js ''Error'', js ''Failed to load settings'', js ''error'')]
        \<and> \<not> isLoading (comp (step (LoadSettles Rejected) w)))
   \<and> (list_all writes_no_buffer es \<longrightarrow>
        edit_buffer (comp (exec es (mount ext cb))) = default_buffer)"
proof (intro conjI impI)
  show "edit_buffer (comp (step (LoadSettles Rejected) w)) = edit_buffer (comp w)"
    by (rule step_writes_no_buffer) simp
next
  assume "loads_settled w < getConfig_calls (comp w)"
  then show "toasts (comp (step (LoadSettles Rejected) w))
          = toasts (comp w) @ [(js ''Error'', js ''Failed to load settings'', js ''error'')]"
    and "\<not> isLoading (comp (step (LoadSettles Rejected) w))"
    by (simp_all add: load_settled_def)
next
  assume "list_all writes_no_buffer es"
  then show "edit_buffer (comp (exec es (mount ext cb))) = default_buffer"
    by (simp add: exec_writes_no_buffer mount_default_buffer)
qed

text \<open>
  An instance: the dialog is mounted open and its load is pending; the load fails, the
  dialog is cancelled, closed and opened again, and the second load fails as well.
\<close>

theorem load_failure_keeps_buffer_witness:
  "loads_settled (mount (Some True) True) < getConfig_calls (comp (mount (Some True) True))
   \<and> toasts (comp (step (LoadSettles Rejected) (mount (Some True) True)))
     = toasts (comp (mount (Some True) True))
       @ [(js ''Error'', js ''Failed to load settings'', js ''error'')]
   \<and> \<not> isLoading (comp (step (LoadSettles Rejected) (mount (Some True) True)))
   \<and> list_all writes_no_buffer
        [LoadSettles Rejected, ClickCancel, Render (Some False) True, Render (Some True) True,
         LoadSettles Rejected]
   \<and> edit_buffer (comp (exec
        [LoadSettles Rejected, ClickCancel, Render (Some False) True, Render (Some True) True,
         LoadSettles Rejected]
        (mount (Some True) True))) = default_buffer"
proof -
  have a: "loads_settled (mount (Some True) True)
             < getConfig_calls (comp (mount (Some True) True))"
    by (simp add: mount_def initial_dialog_def load_effect_def)
  have b: "list_all writes_no_buffer
        [LoadSettles Rejected, ClickCancel, Render (Some False) True, Render (Some True) True,
         LoadSettles Rejected]"
    by simp
  from load_failure_keeps_buffer
         [of "mount (Some True) True"
             "[LoadSettles Rejected, ClickCancel, Render (Some False) True,
               Render (Some True) True, LoadSettles Rejected]" "Some True" True]
       a b
  show ?thesis by blast
qed

text \<open>
  The claim as it stands fails when the dialog is opened a second time: the first load
  brings a Claude configuration, the dialog is closed and opened again, the second load
  fails, and the buffer holds the Claude configuration, not the defaults.
\<close>

theorem load_failure_not_defaults_counterexample:
  "toasts (comp (exec
      [LoadSettles (Resolved stored_claude), ClickCancel, Render (Some False) True,
       Render (Some True) True, LoadSettles Rejected]
      (mount (Some True) True))) = [(js ''Error'', js ''Failed to load settings'', js ''error'')]
   \<and> edit_buffer (comp (exec
      [LoadSettles (Resolved stored_claude), ClickCancel, Render (Some False) True,
       Render (Some True) True, LoadSettles Rejected]
      (mount (Some True) True)))
     = (claude, [], key_sk_ant_32b, js ''gpt-4o'', js ''gpt-4o'', js ''gpt-4o'')
   \<and> edit_buffer (comp (exec
      [LoadSettles (Resolved stored_claude), ClickCancel, Render (Some False) True,
       Render (Some True) True, LoadSettles Rejected]
      (mount (Some True) True))) \<noteq> default_buffer"
  by (simp add: lifecycle_eval stored_claude_def edit_buffer_def default_buffer_def)

subsection \<open>The busy flag\<close>

lemma step_keeps_busy_inv:
  assumes "busy_inv w" and "case e of LoadSettles r \<Rightarrow> pending_saves w = [] | _ \<Rightarrow> True"
  shows "busy_inv (step e w)"
proof (cases e)
  case ClickSave
  show ?thesis
  proof (cases "handleSave_begin (comp w)")
    case (Returned s')
    with handleSave_begin_Returned [OF Returned] assms ClickSave show ?thesis
      by (auto simp: Let_def busy_inv_def)
  next
    case (Awaiting s')
    with handleSave_begin_Awaiting [OF Awaiting] assms ClickSave show ?thesis
      by (auto simp: Let_def busy_inv_def)
  qed
next
  case (ClickModel k m)
  with assms show ?thesis by (cases k) (auto simp: Let_def busy_inv_def)
next
  case (SaveSettles i r)
  with assms show ?thesis by (auto simp: busy_inv_def remove_nth_def)
qed (use assms in \<open>auto simp: Let_def busy_inv_def split: option.splits\<close>)

lemma exec_keeps_busy_inv:
  "busy_inv w \<Longrightarrow> no_load_settles_during_save es w \<Longrightarrow> busy_inv (exec es w)"
  by (induction es arbitrary: w) (simp_all add: step_keeps_busy_inv)

text \<open>
  What the busy flag does achieve. A click on Save while the flag is set starts nothing,
  and as long as no load settles while a save submission is outstanding, the flag stays
  set for that submission and there is no second one.
\<close>

lemma busy_flag_disables_save: "isLoading (comp w) \<Longrightarrow> step ClickSave w = w"
  by (simp add: Let_def)

lemma busy_flag_holds_until_load_settles:
  assumes "no_load_settles_during_save es (mount ext cb)"
  shows "busy_inv (exec es (mount ext cb))"
proof -
  have "busy_inv (mount ext cb)" by (simp add: busy_inv_def mount_def)
  from exec_keeps_busy_inv [OF this assms] show ?thesis .
qed

lemma stored_openai_loaded:
  "load_settled (Resolved stored_openai) s
     = s\<lparr>apiKey := key_sk_32a, claudeApiKey := [], provider := openai,
         extractionModel := js ''gpt-4o'', solutionModel := js ''gpt-4o'',
         debuggingModel := js ''gpt-4o'', isLoading := False\<rparr>"
  by (simp add: load_settled_def stored_openai_def or_default_def or_provider_def truthy_def
        key_sk_32a_nonempty)

text \<open>
  Claim C8. While a save submission is outstanding no second one can be initiated: in
  every reachable state of the form's lifecycle at most one save to the external boundary
  is in flight. The component does not keep this. The busy flag that disables the Save
  button is the one the load effect uses, and the \<^verbatim>\<open>finally\<close> of a load clears it whether
  or not a save is outstanding. After the run \<open>reopen_during_save\<close> one submission is
  outstanding, the dialog is open and the flag is clear; the next click on Save submits
  again, and two calls of \<^verbatim>\<open>updateConfig\<close> are in flight.
\<close>

theorem two_saves_in_flight:
  "length (pending_saves (exec reopen_during_save (mount (Some True) True))) = 1
   \<and> dialog_open (comp (exec reopen_during_save (mount (Some True) True)))
   \<and> \<not> isLoading (comp (exec reopen_during_save (mount (Some True) True)))
   \<and> length (pending_saves
        (step ClickSave (exec reopen_during_save (mount (Some True) True)))) = 2
   \<and> length (updateConfig_calls (comp
        (step ClickSave (exec reopen_during_save (mount (Some True) True))))) = 2"
  by (simp add: reopen_during_save_def stored_openai_loaded mount_def initial_dialog_def
        load_effect_def setOpen_def handleOpenChange_def props_of_def Let_def
        handleSave_begin_def truthy_def valid_sk_32a key_sk_32a_nonempty)

end
